theory Spec2Isabelle
  imports Main "HOL-Library.AList" "HOL-Library.Multiset"
begin

section \<open>JavaScript values and strings\<close>

text \<open>
  The forum client is TypeScript. A JavaScript string is modelled as a \<open>string\<close>, one
  \<open>char\<close> standing for one code unit, so \<open>length\<close> is what \<open>.length\<close> counts.
  The values that reach the validation schema are strings, arrays of strings,
  \<open>undefined\<close> and \<open>null\<close>.
\<close>

datatype jsval = Undefined | Null | Str string | Arr "jsval list"

text \<open>
  \<open>String.prototype.trim\<close> removes white space and line terminators from both ends.
  Of the code units a \<open>char\<close> can hold these are tab, line feed, vertical tab, form
  feed, carriage return, space and the no-break space.
\<close>

definition is_white_space :: "char \<Rightarrow> bool" where
  "is_white_space c = (of_char c \<in> {9, 10, 11, 12, 13, 32, 160 :: nat})"

definition trim :: "string \<Rightarrow> string" where
  "trim s = rev (dropWhile is_white_space (rev (dropWhile is_white_space s)))"

text \<open>\<open>s || undefined\<close> and \<open>s || null\<close> on a possibly missing string: the empty string is falsy.\<close>

definition or_undefined :: "string \<Rightarrow> string option" where
  "or_undefined s = (if s = [] then None else Some s)"

definition or_null :: "string option \<Rightarrow> jsval" where
  "or_null v = (case v of None \<Rightarrow> Null | Some s \<Rightarrow> if s = [] then Null else Str s)"

text \<open>\<open>flags || []\<close>: an array is truthy even when empty.\<close>

definition or_empty_array :: "string list option \<Rightarrow> jsval" where
  "or_empty_array v = (case v of None \<Rightarrow> Arr [] | Some xs \<Rightarrow> Arr (map Str xs))"

section \<open>The validation library\<close>

text \<open>
  \<open>lib/validations\<close> builds its schemas from the combinators of the zod library. A
  schema parses a value to a status (valid, dirty: of the right type but failing a
  check, or aborted) and a list of issues. An issue has a code and the message the
  schema gives for it, if it gives one.
\<close>

datatype issue_code =
  invalid_type | invalid_literal | invalid_union | too_small | too_big | invalid_string

datatype issue = Issue (code: issue_code) (message: "string option")

datatype parse_result =
  Valid jsval
| Dirty jsval "issue list"
| Aborted "issue list"

type_synonym zod_type = "jsval \<Rightarrow> parse_result"

fun issues_of :: "parse_result \<Rightarrow> issue list" where
  "issues_of (Valid v) = []"
| "issues_of (Dirty v is) = is"
| "issues_of (Aborted is) = is"

fun is_valid :: "parse_result \<Rightarrow> bool" where
  "is_valid (Valid v) = True"
| "is_valid (Dirty v is) = False"
| "is_valid (Aborted is) = False"

fun is_aborted :: "parse_result \<Rightarrow> bool" where
  "is_aborted (Aborted is) = True"
| "is_aborted (Valid v) = False"
| "is_aborted (Dirty v is) = False"

fun value_of :: "parse_result \<Rightarrow> jsval" where
  "value_of (Valid v) = v"
| "value_of (Dirty v is) = v"
| "value_of (Aborted is) = Undefined"

text \<open>\<open>z.string()\<close>: anything but a string aborts.\<close>

fun z_string :: zod_type where
  "z_string (Str s) = Valid (Str s)"
| "z_string v = Aborted [Issue invalid_type None]"

text \<open>
  A check added to a string schema. All checks of a string schema run, in the order
  they were added, and each failing one adds its issue and makes the result dirty.
\<close>

fun add_check :: "(string \<Rightarrow> bool) \<Rightarrow> issue \<Rightarrow> parse_result \<Rightarrow> parse_result" where
  "add_check ok i (Valid (Str s)) = (if ok s then Valid (Str s) else Dirty (Str s) [i])"
| "add_check ok i (Dirty (Str s) is) =
     (if ok s then Dirty (Str s) is else Dirty (Str s) (is @ [i]))"
| "add_check ok i r = r"

definition z_min :: "nat \<Rightarrow> string \<Rightarrow> zod_type \<Rightarrow> zod_type" where
  "z_min n msg t = (\<lambda>v. add_check (\<lambda>s. n \<le> length s) (Issue too_small (Some msg)) (t v))"

definition z_max :: "nat \<Rightarrow> string \<Rightarrow> zod_type \<Rightarrow> zod_type" where
  "z_max n msg t = (\<lambda>v. add_check (\<lambda>s. length s \<le> n) (Issue too_big (Some msg)) (t v))"

text \<open>
  \<open>.url(msg)\<close> asks the platform's URL parser whether the string is a well-formed URL.
  The parser is not part of the repository: it is the parameter \<open>is_url\<close>.
\<close>

definition z_url :: "(string \<Rightarrow> bool) \<Rightarrow> string \<Rightarrow> zod_type \<Rightarrow> zod_type" where
  "z_url is_url msg t = (\<lambda>v. add_check is_url (Issue invalid_string (Some msg)) (t v))"

text \<open>\<open>.optional()\<close> lets \<open>undefined\<close> through and nothing else: \<open>null\<close> goes to the inner schema.\<close>

definition z_optional :: "zod_type \<Rightarrow> zod_type" where
  "z_optional t = (\<lambda>v. if v = Undefined then Valid Undefined else t v)"

definition z_literal :: "string \<Rightarrow> zod_type" where
  "z_literal s = (\<lambda>v. if v = Str s then Valid v else Aborted [Issue invalid_literal None])"

text \<open>
  \<open>a.or(b)\<close>: the first option that is valid wins; failing that the first dirty option
  is returned with its issues; when both abort the union reports one issue of its own.
\<close>

definition z_or :: "zod_type \<Rightarrow> zod_type \<Rightarrow> zod_type" where
  "z_or a b = (\<lambda>v.
     case a v of
       Valid x \<Rightarrow> Valid x
     | Dirty x is \<Rightarrow> (case b v of Valid y \<Rightarrow> Valid y | _ \<Rightarrow> Dirty x is)
     | Aborted is \<Rightarrow>
         (case b v of
            Valid y \<Rightarrow> Valid y
          | Dirty y js \<Rightarrow> Dirty y js
          | Aborted js \<Rightarrow> Aborted [Issue invalid_union None]))"

text \<open>\<open>z.array(t)\<close>: every element is parsed; one aborted element aborts the array.\<close>

definition z_array :: "zod_type \<Rightarrow> zod_type" where
  "z_array t = (\<lambda>v.
     case v of
       Arr xs \<Rightarrow>
         (let rs = map t xs; is = concat (map issues_of rs) in
          if list_ex is_aborted rs then Aborted is
          else if list_all is_valid rs then Valid (Arr (map value_of rs))
          else Dirty (Arr (map value_of rs)) is)
     | _ \<Rightarrow> Aborted [Issue invalid_type None])"

text \<open>\<open>.default(d)\<close> parses \<open>d\<close> in place of \<open>undefined\<close>.\<close>

definition z_default :: "jsval \<Rightarrow> zod_type \<Rightarrow> zod_type" where
  "z_default d t = (\<lambda>v. if v = Undefined then t d else t v)"

section \<open>The schemas of lib/validations\<close>

definition title_schema :: zod_type where
  "title_schema =
     z_max 200 ''Title must be less than 200 characters''
       (z_min 3 ''Title must be at least 3 characters''
         (z_min 1 ''Title is required'' z_string))"

definition content_schema :: zod_type where
  "content_schema =
     z_optional (z_max 2000 ''Content must be less than 2000 characters'' z_string)"

definition url_schema :: "(string \<Rightarrow> bool) \<Rightarrow> zod_type" where
  "url_schema is_url =
     z_or (z_optional (z_url is_url ''Please enter a valid URL'' z_string)) (z_literal '''')"

definition flags_schema :: zod_type where
  "flags_schema = z_default (Arr []) (z_optional (z_array z_string))"

text \<open>The object handed to \<open>createPostSchema.safeParse\<close>, and what a successful parse returns.\<close>

record post_fields =
  f_title :: jsval
  f_content :: jsval
  f_image_url :: jsval
  f_link_url :: jsval
  f_flags :: jsval

text \<open>
  \<open>z.object\<close> parses each key with its schema; an issue of a key carries the key as the
  head of its path. \<open>safeParse\<close> succeeds when every key is valid, and otherwise returns
  the issues.
\<close>

definition keyed :: "string \<Rightarrow> parse_result \<Rightarrow> (string \<times> issue) list" where
  "keyed k r = map (Pair k) (issues_of r)"

definition createPostSchema ::
  "(string \<Rightarrow> bool) \<Rightarrow> post_fields \<Rightarrow> (string \<times> issue) list + post_fields" where
  "createPostSchema is_url x =
     (let t = title_schema (f_title x);
          c = content_schema (f_content x);
          i = url_schema is_url (f_image_url x);
          l = url_schema is_url (f_link_url x);
          f = flags_schema (f_flags x)
      in if is_valid t \<and> is_valid c \<and> is_valid i \<and> is_valid l \<and> is_valid f
         then Inr \<lparr>f_title = value_of t, f_content = value_of c, f_image_url = value_of i,
                   f_link_url = value_of l, f_flags = value_of f\<rparr>
         else Inl (keyed ''title'' t @ keyed ''content'' c @ keyed ''image_url'' i @
                   keyed ''link_url'' l @ keyed ''flags'' f))"

text \<open>The issues a \<open>safeParse\<close> result reports under a field; none when it succeeded.\<close>

definition field_issues :: "string \<Rightarrow> (string \<times> issue) list + 'a \<Rightarrow> issue list" where
  "field_issues k res =
     (case res of Inl is \<Rightarrow> map snd (filter (\<lambda>(k', i). k' = k) is) | Inr d \<Rightarrow> [])"

definition commentSchema :: "jsval \<Rightarrow> (string \<times> issue) list + jsval" where
  "commentSchema x =
     (let c = z_max 500 ''Comment must be less than 500 characters''
                (z_min 3 ''Comment must be at least 3 characters''
                  (z_min 1 ''Comment cannot be empty'' z_string)) x
      in if is_valid c then Inr (value_of c) else Inl (keyed ''content'' c))"

section \<open>The remote platform\<close>

text \<open>
  Every write goes through the platform's client. A request is what the client sends;
  how the platform answers, and what the request does to the platform's data, is not
  part of the repository: it is the parameter \<open>platform\<close>, any function from a
  request and the remote data to a reply (an error message or data) and the new remote
  data. The remote state also records every request that was sent.
\<close>

datatype request =
  InsertPost post_fields "string option"
| UpdatePost string post_fields
| DeletePost string
| IncrementUpvotes string
| InsertComment string string string
| SelectPost string
| SelectComments string
| GetSession

type_synonym ('db, 'r) platform = "request \<Rightarrow> 'db \<Rightarrow> (string + 'r) \<times> 'db"

record 'db remote =
  db :: 'db
  sent :: "request list"

definition call ::
  "('db, 'r) platform \<Rightarrow> request \<Rightarrow> 'db remote \<Rightarrow> (string + 'r) \<times> 'db remote" where
  "call platform rq r =
     (case platform rq (db r) of
        (reply, db') \<Rightarrow> (reply, \<lparr>db = db', sent = sent r @ [rq]\<rparr>))"

text \<open>\<open>if (userId)\<close> on a \<open>string | null\<close>: \<open>null\<close> and the empty string are falsy.\<close>

definition truthy :: "string option \<Rightarrow> bool" where
  "truthy u = (case u of None \<Rightarrow> False | Some s \<Rightarrow> s \<noteq> [])"

section \<open>Creating and editing a post\<close>

text \<open>
  The argument of both mutations: \<open>{title, content, image_url?, link_url?, flags?}\<close>.
\<close>

record postData =
  p_title :: string
  p_content :: string
  p_image_url :: "string option"
  p_link_url :: "string option"
  p_flags :: "string list option"

text \<open>
  What a mutation function throws: the validation error carries the error map (field
  to message, \<open>None\<close> standing for the library's default message of the issue), the
  remote error the platform's message.
\<close>

datatype error =
  ValidationError "(string \<times> string option) list"
| RemoteError string
| General string

text \<open>
  \<open>issues.forEach(issue => { if (issue.path[0]) errorMap[issue.path[0]] = issue.message })\<close>:
  a later issue of a field overwrites an earlier one.
\<close>

definition errorMap_of :: "(string \<times> issue) list \<Rightarrow> (string \<times> string option) list" where
  "errorMap_of is =
     fold (\<lambda>(k, i) m. if k \<noteq> [] then AList.update k (message i) m else m) is []"

text \<open>The object both mutation functions hand to \<open>createPostSchema.safeParse\<close>.\<close>

definition parsed_input :: "postData \<Rightarrow> post_fields" where
  "parsed_input postData =
     \<lparr>f_title = Str (p_title postData),
      f_content = Str (p_content postData),
      f_image_url = or_null (p_image_url postData),
      f_link_url = or_null (p_link_url postData),
      f_flags = or_empty_array (p_flags postData)\<rparr>"

text \<open>
  \<open>createPostMutation\<close> (pages/CreatePost). The mutation function validates, throws the
  error map when validation fails, and else inserts, with \<open>user_id\<close> attached only when
  there is a user. \<open>onSuccess\<close> invalidates the queries \<open>posts\<close> and \<open>posts-count\<close>;
  the create page mounts neither, so nothing is fetched.
\<close>

definition createPostMutation ::
  "(string \<Rightarrow> bool) \<Rightarrow> ('db, 'r) platform \<Rightarrow> string option \<Rightarrow> postData \<Rightarrow> 'db remote \<Rightarrow>
     (error + 'r) \<times> 'db remote" where
  "createPostMutation is_url platform userId postData r =
     (case createPostSchema is_url (parsed_input postData) of
        Inl issues \<Rightarrow> (Inl (ValidationError (errorMap_of issues)), r)
      | Inr data \<Rightarrow>
          (case call platform (InsertPost data (if truthy userId then userId else None)) r of
             (Inl e, r') \<Rightarrow> (Inl (RemoteError e), r')
           | (Inr d, r') \<Rightarrow> (Inr d, r')))"

text \<open>
  \<open>updatePostMutation\<close> (pages/EditPost). The mutation function does the same validation
  and then the update. \<open>onSuccess\<close> invalidates the post query, which the edit page
  mounts, so after a successful update the post is fetched again (and the query
  \<open>posts\<close>, which the page does not mount).
\<close>

definition updatePostMutation ::
  "(string \<Rightarrow> bool) \<Rightarrow> ('db, 'r) platform \<Rightarrow> string \<Rightarrow> postData \<Rightarrow> 'db remote \<Rightarrow>
     (error + unit) \<times> 'db remote" where
  "updatePostMutation is_url platform id_param postData r =
     (case createPostSchema is_url (parsed_input postData) of
        Inl issues \<Rightarrow> (Inl (ValidationError (errorMap_of issues)), r)
      | Inr data \<Rightarrow>
          (case call platform (UpdatePost id_param data) r of
             (Inl e, r') \<Rightarrow> (Inl (RemoteError e), r')
           | (Inr d, r') \<Rightarrow> (Inr (), snd (call platform (SelectPost id_param) r'))))"

text \<open>The form state of both pages, and the \<open>postData\<close> that \<open>handleSubmit\<close> builds from it.\<close>

record form =
  title :: string
  content :: string
  imageUrl :: string
  linkUrl :: string
  selectedFlags :: "string list"

definition form_postData :: "form \<Rightarrow> postData" where
  "form_postData f =
     \<lparr>p_title = trim (title f),
      p_content = trim (content f),
      p_image_url = or_undefined (trim (imageUrl f)),
      p_link_url = or_undefined (trim (linkUrl f)),
      p_flags = Some (selectedFlags f)\<rparr>"

text \<open>
  \<open>CreatePost.handleSubmit\<close> returns early, with a general error, while the anonymous
  sign-in is loading or has failed; \<open>EditPost.handleSubmit\<close> has no such gate. The
  record is what the \<open>useOwner\<close> hook returns; \<open>auth_error\<close> is its \<open>error\<close>.
\<close>

record owner =
  userId :: "string option"
  isLoading :: bool
  auth_error :: "string option"

definition CreatePost_handleSubmit ::
  "(string \<Rightarrow> bool) \<Rightarrow> ('db, 'r) platform \<Rightarrow> owner \<Rightarrow> form \<Rightarrow> 'db remote \<Rightarrow>
     (error + 'r) \<times> 'db remote" where
  "CreatePost_handleSubmit is_url platform own f r =
     (if isLoading own then (Inl (General ''Please wait for authentication to complete''), r)
      else case auth_error own of
        Some e \<Rightarrow> if e \<noteq> [] then (Inl (General e), r)
                  else createPostMutation is_url platform (userId own) (form_postData f) r
      | None \<Rightarrow> createPostMutation is_url platform (userId own) (form_postData f) r)"

definition EditPost_handleSubmit ::
  "(string \<Rightarrow> bool) \<Rightarrow> ('db, 'r) platform \<Rightarrow> string \<Rightarrow> form \<Rightarrow> 'db remote \<Rightarrow>
     (error + unit) \<times> 'db remote" where
  "EditPost_handleSubmit is_url platform id_param f r =
     updatePostMutation is_url platform id_param (form_postData f) r"



section \<open>The post page\<close>

text \<open>
  The record of a post as the platform returns it. \<open>upvotes\<close> is the server's counter.
\<close>

record Post =
  post_id :: string
  post_title :: string
  post_content :: string
  post_image_url :: "string option"
  post_link_url :: "string option"
  post_flags :: "string list option"
  post_user_id :: string
  post_created_at :: string
  post_upvotes :: int

text \<open>
  The state of \<open>PostPage\<close>: the route's \<open>id\<close> (\<open>id_param\<close>), the hook's \<open>userId\<close>
  (\<open>owner_id\<close>), the data of the post query (\<open>None\<close> until a record was fetched), the
  component's own state, and the requests of the page: all it has issued, and those not
  answered yet. \<open>upvote_isPending\<close> is \<open>upvoteMutation.isPending\<close> as the last render
  read it: that is the value the upvote handler and the upvote button see.
\<close>

record PostPage =
  id_param :: string
  owner_id :: "string option"
  post :: "Post option"
  newComment :: string
  isSubmittingComment :: bool
  commentError :: "string option"
  upvoteError :: "string option"
  upvote_isPending :: bool
  issued :: "request list"
  in_flight :: "request list"

definition issue_request :: "request \<Rightarrow> PostPage \<Rightarrow> PostPage" where
  "issue_request rq s = s\<lparr>issued := issued s @ [rq], in_flight := in_flight s @ [rq]\<rparr>"

fun remove_first :: "(request \<Rightarrow> bool) \<Rightarrow> request list \<Rightarrow> request list" where
  "remove_first P [] = []"
| "remove_first P (x # xs) = (if P x then xs else x # remove_first P xs)"

fun is_increment :: "request \<Rightarrow> bool" where
  "is_increment (IncrementUpvotes p) = True"
| "is_increment rq = False"

fun is_comment_insert :: "request \<Rightarrow> bool" where
  "is_comment_insert (InsertComment c u p) = True"
| "is_comment_insert rq = False"

fun is_select_post :: "request \<Rightarrow> bool" where
  "is_select_post (SelectPost p) = True"
| "is_select_post rq = False"

text \<open>The number shown in the upvote button: \<open>{post.upvotes}\<close>, once there is a post.\<close>

definition upvotes_shown :: "PostPage \<Rightarrow> int option" where
  "upvotes_shown s = map_option post_upvotes (post s)"

text \<open>
  \<open>upvoteMutation\<close>. \<open>onSuccess\<close> invalidates the post query, which refetches the post,
  and clears the error; \<open>onError\<close> stores \<open>e?.message || "Failed to upvote"\<close>. The
  mutation function returns at once without a post, throws without a user, and else
  sends the one \<open>increment_upvotes\<close> call. Neither the handler nor the mutation
  writes the flag the handler tests: the component reads \<open>upvoteMutation.isPending\<close>
  when it renders, so the flag changes with the next render and not before.
\<close>

definition upvote_onSuccess :: "PostPage \<Rightarrow> PostPage" where
  "upvote_onSuccess s = issue_request (SelectPost (id_param s)) (s\<lparr>upvoteError := None\<rparr>)"

definition upvote_onError :: "string \<Rightarrow> PostPage \<Rightarrow> PostPage" where
  "upvote_onError m s = s\<lparr>upvoteError := Some (if m = [] then ''Failed to upvote'' else m)\<rparr>"

definition upvoteMutation_mutate :: "PostPage \<Rightarrow> PostPage" where
  "upvoteMutation_mutate s =
     (case post s of
        None \<Rightarrow> upvote_onSuccess s
      | Some p \<Rightarrow>
          if \<not> truthy (owner_id s) then upvote_onError ''Not authenticated yet'' s
          else issue_request (IncrementUpvotes (post_id p)) s)"

definition handleUpvote :: "PostPage \<Rightarrow> PostPage" where
  "handleUpvote s =
     (if upvote_isPending s \<or> post s = None then s else upvoteMutation_mutate s)"

text \<open>
  \<open>commentMutation\<close> and \<open>handleCommentSubmit\<close>. The handler tests the trimmed text and
  the in-flight flag, and nothing else; the mutation function throws without a user and
  else inserts the trimmed content. Here the handler records the submission itself, with
  \<open>setIsSubmittingComment(true)\<close>; the state update of an event handler is applied
  before the next event is handled, so the flag is set in the handler's own step.
\<close>

definition comment_onSuccess :: "PostPage \<Rightarrow> PostPage" where
  "comment_onSuccess s =
     issue_request (SelectComments (id_param s))
       (s\<lparr>newComment := [], isSubmittingComment := False, commentError := None\<rparr>)"

definition comment_onError :: "string \<Rightarrow> PostPage \<Rightarrow> PostPage" where
  "comment_onError m s =
     s\<lparr>isSubmittingComment := False,
       commentError := Some (if m = [] then ''Failed to post comment'' else m)\<rparr>"

definition commentMutation_mutate :: "string \<Rightarrow> PostPage \<Rightarrow> PostPage" where
  "commentMutation_mutate c s =
     (case owner_id s of
        None \<Rightarrow> comment_onError ''Not authenticated yet'' s
      | Some u \<Rightarrow>
          if u = [] then comment_onError ''Not authenticated yet'' s
          else issue_request (InsertComment (trim c) u (id_param s)) s)"

definition handleCommentSubmit :: "PostPage \<Rightarrow> PostPage" where
  "handleCommentSubmit s =
     (if trim (newComment s) = [] \<or> isSubmittingComment s then s
      else commentMutation_mutate (newComment s) (s\<lparr>isSubmittingComment := True\<rparr>))"

text \<open>
  What happens to the page: the post query delivers a record, the owner changes, the
  user types, clicks the upvote button or submits the comment form, the platform
  answers an upvote or a comment insert (with an error message, or with none), and the
  page renders again. An answer to a request that is not in flight changes nothing.
  Answers come in the order of the requests, so the upvote mutation is pending exactly
  while an \<open>increment_upvotes\<close> call is in flight; a render reads that into the flag.
  A render may come after any event, and it need not come before the next one.
\<close>

datatype event =
  Rendered
| PostFetched Post
| OwnerChanged "string option"
| CommentTyped string
| UpvoteClicked
| UpvoteSettled "string option"
| CommentSubmitted
| CommentSettled "string option"

fun step :: "PostPage \<Rightarrow> event \<Rightarrow> PostPage" where
  "step s Rendered = s\<lparr>upvote_isPending := list_ex is_increment (in_flight s)\<rparr>"
| "step s (PostFetched p) =
     s\<lparr>post := Some p, in_flight := remove_first is_select_post (in_flight s)\<rparr>"
| "step s (OwnerChanged u) = s\<lparr>owner_id := u\<rparr>"
| "step s (CommentTyped t) = s\<lparr>newComment := t\<rparr>"
| "step s UpvoteClicked = handleUpvote s"
| "step s (UpvoteSettled e) =
     (if list_ex is_increment (in_flight s) then
        (let s' = s\<lparr>in_flight := remove_first is_increment (in_flight s)\<rparr> in
         case e of None \<Rightarrow> upvote_onSuccess s' | Some m \<Rightarrow> upvote_onError m s')
      else s)"
| "step s CommentSubmitted = handleCommentSubmit s"
| "step s (CommentSettled e) =
     (if list_ex is_comment_insert (in_flight s) then
        (let s' = s\<lparr>in_flight := remove_first is_comment_insert (in_flight s)\<rparr> in
         case e of None \<Rightarrow> comment_onSuccess s' | Some m \<Rightarrow> comment_onError m s')
      else s)"

definition run :: "PostPage \<Rightarrow> event list \<Rightarrow> PostPage" where
  "run s es = foldl step s es"

text \<open>The page as it mounts: both queries are sent, nothing is fetched yet.\<close>

definition PostPage_init :: "string \<Rightarrow> string option \<Rightarrow> PostPage" where
  "PostPage_init i u =
     \<lparr>id_param = i, owner_id = u, post = None, newComment = [],
      isSubmittingComment = False, commentError = None, upvoteError = None,
      upvote_isPending = False,
      issued = [SelectPost i, SelectComments i],
      in_flight = [SelectPost i, SelectComments i]\<rparr>"

text \<open>The record the last fetch of a run delivered, \<open>p\<close> when the run has no fetch.\<close>

fun last_fetched :: "Post option \<Rightarrow> event list \<Rightarrow> Post option" where
  "last_fetched p [] = p"
| "last_fetched p (PostFetched q # es) = last_fetched (Some q) es"
| "last_fetched p (e # es) = last_fetched p es"

section \<open>Retries\<close>

text \<open>
  The queries and mutations of the application, and the \<open>retry\<close> option each one sets:
  only the post query of the post page sets one, \<open>retry: 1\<close>.
\<close>

datatype operation =
  Feed_posts_query
| PostPage_post_query
| PostPage_comments_query
| EditPost_post_query
| CreatePost_mutation
| EditPost_update_mutation
| EditPost_delete_mutation
| PostPage_upvote_mutation
| PostPage_comment_mutation
| PostPage_delete_mutation








section \<open>Tag selections and the feed\<close>

text \<open>
  The three toggles: \<open>FlagSelector.toggleFlag\<close> (which does nothing when disabled),
  \<open>FilterChips.toggleFilter\<close> and the feed's \<open>toggleFilter\<close>. Each gives the new
  selection.
\<close>

definition toggleFlag :: "bool \<Rightarrow> string list \<Rightarrow> string \<Rightarrow> string list" where
  "toggleFlag disabled selected flagValue =
     (if disabled then selected
      else if flagValue \<in> set selected then filter (\<lambda>flag. flag \<noteq> flagValue) selected
      else selected @ [flagValue])"

definition FilterChips_toggleFilter :: "string list \<Rightarrow> string \<Rightarrow> string list" where
  "FilterChips_toggleFilter selected flagValue =
     (if flagValue \<in> set selected then filter (\<lambda>x. x \<noteq> flagValue) selected
      else selected @ [flagValue])"

definition clearAllFilters :: "string list \<Rightarrow> string list" where
  "clearAllFilters selected = []"

datatype sortBy = newest | oldest | most_upvoted

record Feed =
  searchTerm :: string
  sortBy :: sortBy
  selectedFilters :: "string list"

definition Feed_toggleFilter :: "Feed \<Rightarrow> string \<Rightarrow> Feed" where
  "Feed_toggleFilter s filterValue =
     s\<lparr>selectedFilters :=
        (if filterValue \<in> set (selectedFilters s)
         then filter (\<lambda>f. f \<noteq> filterValue) (selectedFilters s)
         else selectedFilters s @ [filterValue])\<rparr>"

text \<open>The feed's "Clear filters" button: \<open>setSearchTerm(""); setSelectedFilters([])\<close>.\<close>

definition Feed_clear_filters :: "Feed \<Rightarrow> Feed" where
  "Feed_clear_filters s = s\<lparr>searchTerm := [], selectedFilters := []\<rparr>"

text \<open>
  The query the feed's \<open>queryFn\<close> builds: a select on \<open>posts\<close>, an \<open>or\<close> filter when
  the search term is not empty, a \<open>contains\<close> filter when tags are selected, and the
  order (column, ascending).
\<close>

datatype pg_filter = Or_filter string | Contains string "string list"

record select_query =
  from_table :: string
  filters :: "pg_filter list"
  order_by :: "(string \<times> bool) option"

definition Feed_query :: "Feed \<Rightarrow> select_query" where
  "Feed_query s =
     (let q0 = \<lparr>from_table = ''posts'', filters = [], order_by = None\<rparr>;
          q1 = (if searchTerm s \<noteq> [] then
                  q0\<lparr>filters := filters q0 @
                     [Or_filter (''title.ilike.%'' @ searchTerm s @ ''%,content.ilike.%'' @
                                 searchTerm s @ ''%'')]\<rparr>
                else q0);
          q2 = (if length (selectedFilters s) > 0 then
                  q1\<lparr>filters := filters q1 @ [Contains ''flags'' (selectedFilters s)]\<rparr>
                else q1)
      in case sortBy s of
           newest \<Rightarrow> q2\<lparr>order_by := Some (''created_at'', False)\<rparr>
         | oldest \<Rightarrow> q2\<lparr>order_by := Some (''created_at'', True)\<rparr>
         | most_upvoted \<Rightarrow> q2\<lparr>order_by := Some (''upvotes'', False)\<rparr>)"

text \<open>
  The platform answers a select with the rows that satisfy every filter of the query, in
  the order asked for. When a row satisfies a filter, and the key a column orders by,
  are the platform's: the parameters \<open>holds\<close> and \<open>key\<close>.
\<close>

definition select_rows ::
  "(pg_filter \<Rightarrow> Post \<Rightarrow> bool) \<Rightarrow> (string \<Rightarrow> Post \<Rightarrow> int) \<Rightarrow> select_query \<Rightarrow> Post list \<Rightarrow>
     Post list" where
  "select_rows holds key q rows =
     (let kept = filter (\<lambda>p. list_all (\<lambda>f. holds f p) (filters q)) rows in
      case order_by q of
        None \<Rightarrow> kept
      | Some (column, ascending) \<Rightarrow>
          if ascending then sort_key (key column) kept else rev (sort_key (key column) kept))"

definition Feed_posts ::
  "(pg_filter \<Rightarrow> Post \<Rightarrow> bool) \<Rightarrow> (string \<Rightarrow> Post \<Rightarrow> int) \<Rightarrow> Feed \<Rightarrow> Post list \<Rightarrow> Post list" where
  "Feed_posts holds key s rows = select_rows holds key (Feed_query s) rows"

section \<open>Observations used in the statements\<close>





text \<open>A post with a given counter, and the post page after it was fetched and upvoted once.\<close>

definition example_post :: "int \<Rightarrow> Post" where
  "example_post n =
     \<lparr>post_id = ''p1'', post_title = ''Crispy fries'', post_content = [],
      post_image_url = None, post_link_url = None, post_flags = None,
      post_user_id = ''u2'', post_created_at = ''2025-08-01T10:00:00Z'', post_upvotes = n\<rparr>"

definition upvote_sent :: PostPage where
  "upvote_sent =
     \<lparr>id_param = ''p1'', owner_id = Some ''u1'', post = Some (example_post 4), newComment = [],
      isSubmittingComment = False, commentError = None, upvoteError = None,
      upvote_isPending = True,
      issued = [SelectPost ''p1'', SelectComments ''p1'', IncrementUpvotes ''p1''],
      in_flight = [SelectComments ''p1'', IncrementUpvotes ''p1'']\<rparr>"

section \<open>Field validation\<close>

lemma title_schema_Str:
  "title_schema (Str t) =
     (if 3 \<le> length t \<and> length t \<le> 200 then Valid (Str t)
      else Dirty (Str t)
        ((if 1 \<le> length t then [] else [Issue too_small (Some ''Title is required'')]) @
         (if 3 \<le> length t then []
          else [Issue too_small (Some ''Title must be at least 3 characters'')]) @
         (if length t \<le> 200 then []
          else [Issue too_big (Some ''Title must be less than 200 characters'')])))"
  by (simp add: title_schema_def z_min_def z_max_def)

lemma content_schema_Str:
  "content_schema (Str c) =
     (if length c \<le> 2000 then Valid (Str c)
      else Dirty (Str c) [Issue too_big (Some ''Content must be less than 2000 characters'')])"
  by (simp add: content_schema_def z_optional_def z_max_def)

lemma keyed_Valid [simp]: "keyed k (Valid v) = []"
  by (simp add: keyed_def)

lemma is_valid_issues: "is_valid r \<Longrightarrow> issues_of r = []"
  by (cases r) auto

lemma filter_keyed:
  "map snd (filter (\<lambda>(k', i). k' = k) (keyed k' r)) = (if k' = k then issues_of r else [])"
  by (auto simp: keyed_def filter_map comp_def)

text \<open>Under each field \<open>safeParse\<close> reports exactly the issues of that field's schema.\<close>

lemma field_issues_createPostSchema:
  "field_issues ''title'' (createPostSchema is_url x) = issues_of (title_schema (f_title x))"
  "field_issues ''content'' (createPostSchema is_url x) =
     issues_of (content_schema (f_content x))"
  "field_issues ''image_url'' (createPostSchema is_url x) =
     issues_of (url_schema is_url (f_image_url x))"
  "field_issues ''link_url'' (createPostSchema is_url x) =
     issues_of (url_schema is_url (f_link_url x))"
  by (auto simp: field_issues_def createPostSchema_def Let_def filter_keyed is_valid_issues)

text \<open>
  The schema of the two URL fields, value by value: \<open>undefined\<close> and the empty string
  are valid, a non-empty string is valid exactly when it is a well-formed URL, and
  \<open>null\<close> is rejected by both options of the union.
\<close>

lemma url_schema_cases:
  "url_schema is_url Undefined = Valid Undefined"
  "url_schema is_url (Str []) = Valid (Str [])"
  "url_schema is_url Null = Aborted [Issue invalid_union None]"
  "s \<noteq> [] \<Longrightarrow> url_schema is_url (Str s) =
     (if is_url s then Valid (Str s)
      else Dirty (Str s) [Issue invalid_string (Some ''Please enter a valid URL'')])"
  by (auto simp: url_schema_def z_or_def z_optional_def z_url_def z_literal_def)

lemma flags_schema_strings: "flags_schema (Arr (map Str xs)) = Valid (Arr (map Str xs))"
  by (induction xs)
    (auto simp: flags_schema_def z_default_def z_optional_def z_array_def Let_def
      list_ex_iff list_all_iff comp_def)

lemma trim_Nil [simp]: "trim [] = []"
  by (simp add: trim_def)

lemma trim_single: "\<not> is_white_space c \<Longrightarrow> trim [c] = [c]"
  by (simp add: trim_def)

lemma trim_replicate: "\<not> is_white_space c \<Longrightarrow> trim (replicate n c) = replicate n c"
  by (simp add: trim_def)

text \<open>
  Claim C2. The schema accepts a title exactly when its length is at least 3 and at most
  200: the title schema is valid on it, and \<open>createPostSchema.safeParse\<close> reports no issue
  under \<open>title\<close>, whatever the other fields hold.
\<close>

theorem title_accepted_iff_length_3_to_200:
  "(is_valid (title_schema (Str t)) \<longleftrightarrow> 3 \<le> length t \<and> length t \<le> 200) \<and>
   (field_issues ''title'' (createPostSchema is_url (x\<lparr>f_title := Str t\<rparr>)) = [] \<longleftrightarrow>
      3 \<le> length t \<and> length t \<le> 200)"
  by (simp add: field_issues_createPostSchema title_schema_Str)

text \<open>
  Claim C3. The schema accepts a content string exactly when its length is at most 2000;
  the empty string and an absent (\<open>undefined\<close>) content are accepted.
\<close>

theorem content_accepted_iff_length_le_2000:
  "(is_valid (content_schema (Str c)) \<longleftrightarrow> length c \<le> 2000) \<and>
   (field_issues ''content'' (createPostSchema is_url (x\<lparr>f_content := Str c\<rparr>)) = [] \<longleftrightarrow>
      length c \<le> 2000) \<and>
   content_schema (Str []) = Valid (Str []) \<and>
   content_schema Undefined = Valid Undefined \<and>
   field_issues ''content'' (createPostSchema is_url (x\<lparr>f_content := Undefined\<rparr>)) = []"
  by (simp add: field_issues_createPostSchema content_schema_Str)
    (simp add: content_schema_def z_optional_def)

section \<open>Submissions\<close>

text \<open>When validation succeeds the mutation does send its one write.\<close>

lemma createPostMutation_sends:
  "createPostSchema is_url (parsed_input postData) = Inr data \<Longrightarrow>
   sent (snd (createPostMutation is_url platform u postData r)) =
     sent r @ [InsertPost data (if truthy u then u else None)]"
  by (simp add: createPostMutation_def call_def split: prod.splits sum.splits)

text \<open>The edit sends the update and, when the update succeeded, the refetch of the post.\<close>

lemma updatePostMutation_sends:
  "createPostSchema is_url (parsed_input postData) = Inr data \<Longrightarrow>
   sent (snd (updatePostMutation is_url platform i postData r)) =
     sent r @ UpdatePost i data #
       (case fst (platform (UpdatePost i data) (db r)) of
          Inl e \<Rightarrow> [] | Inr d \<Rightarrow> [SelectPost i])"
  by (simp add: updatePostMutation_def call_def split: prod.splits sum.splits)

text \<open>
  Claim C1. A submission that leaves the image URL and the link URL empty hands
  \<open>null\<close> for both to the schema, and the schema, which lets \<open>undefined\<close> and the empty
  string through, rejects \<open>null\<close>: the create form and the edit form both end in a
  validation error under \<open>image_url\<close> and \<open>link_url\<close>, and nothing is sent.
\<close>

theorem submission_without_urls_fails_validation:
  "CreatePost_handleSubmit is_url platform
     \<lparr>userId = Some ''u1'', isLoading = False, auth_error = None\<rparr>
     \<lparr>title = ''Crispy fries'', content = [], imageUrl = [], linkUrl = [],
      selectedFlags = []\<rparr> r
   = (Inl (ValidationError [(''image_url'', None), (''link_url'', None)]), r) \<and>
   EditPost_handleSubmit is_url platform' ''p1''
     \<lparr>title = ''Crispy fries'', content = [], imageUrl = [], linkUrl = [],
      selectedFlags = []\<rparr> r
   = (Inl (ValidationError [(''image_url'', None), (''link_url'', None)]), r)"
  apply (simp add: CreatePost_handleSubmit_def EditPost_handleSubmit_def
      createPostMutation_def updatePostMutation_def form_postData_def parsed_input_def
      or_undefined_def or_null_def or_empty_array_def)
  apply (simp add: createPostSchema_def Let_def url_schema_cases title_schema_Str
      content_schema_Str flags_schema_strings[of "[]", simplified] keyed_def errorMap_of_def
      trim_def is_white_space_def)
  done

text \<open>
  Claim C5. When the input of a create or an edit fails the schema validation, the
  mutation function throws the error map and the remote state is what it was: no
  request was sent and the platform's data is unchanged. The same holds for the
  submission of either form.
\<close>

theorem no_write_when_validation_fails:
  assumes "createPostSchema is_url (parsed_input postData) = Inl issues"
  shows "createPostMutation is_url platform u postData r =
           (Inl (ValidationError (errorMap_of issues)), r) \<and>
         updatePostMutation is_url platform' i postData r =
           (Inl (ValidationError (errorMap_of issues)), r) \<and>
         (postData = form_postData f \<longrightarrow>
            snd (CreatePost_handleSubmit is_url platform own f r) = r \<and>
            snd (EditPost_handleSubmit is_url platform' i f r) = r)"
  using assms
  by (auto simp: createPostMutation_def updatePostMutation_def CreatePost_handleSubmit_def
      EditPost_handleSubmit_def split: option.splits)

theorem no_write_when_validation_fails_witness:
  "createPostSchema (\<lambda>s. True)
     (parsed_input \<lparr>p_title = ''ab'', p_content = [], p_image_url = Some ''https://a.b/c.png'',
        p_link_url = Some ''https://a.b'', p_flags = Some []\<rparr>) =
     Inl [(''title'', Issue too_small (Some ''Title must be at least 3 characters''))] \<and>
   createPostMutation (\<lambda>s. True) (\<lambda>rq d. (Inr (), Suc d)) (Some ''u1'')
     \<lparr>p_title = ''ab'', p_content = [], p_image_url = Some ''https://a.b/c.png'',
        p_link_url = Some ''https://a.b'', p_flags = Some []\<rparr> \<lparr>db = 0, sent = []\<rparr> =
     (Inl (ValidationError [(''title'', Some ''Title must be at least 3 characters'')]),
      \<lparr>db = 0, sent = []\<rparr>)"
proof -
  let ?d = "\<lparr>p_title = ''ab'', p_content = [], p_image_url = Some ''https://a.b/c.png'',
        p_link_url = Some ''https://a.b'', p_flags = Some []\<rparr>"
  have v: "createPostSchema (\<lambda>s. True) (parsed_input ?d) =
     Inl [(''title'', Issue too_small (Some ''Title must be at least 3 characters''))]"
    by (simp add: parsed_input_def or_null_def or_empty_array_def createPostSchema_def Let_def
        url_schema_cases title_schema_Str content_schema_Str
        flags_schema_strings[of "[]", simplified] keyed_def)
  note w = no_write_when_validation_fails [OF v, THEN conjunct1,
      of "\<lambda>rq d. (Inr (), Suc d)" "Some ''u1''" "\<lparr>db = 0::nat, sent = []\<rparr>"]
  show ?thesis using v w by (simp add: errorMap_of_def)
qed

section \<open>Tag selections\<close>

lemma filter_other: "t \<notin> set xs \<Longrightarrow> filter (\<lambda>x. x \<noteq> t) xs = xs"
  by (induction xs) auto

text \<open>
  Claim C6. Toggling the same tag twice gives a selection with the same set of tags as
  the original, and the very same list when the tag was not selected at first. This
  holds for the flag selector (enabled or disabled), the filter chips and the feed.
\<close>

theorem toggle_twice_restores_selection:
  "set (toggleFlag d (toggleFlag d xs t) t) = set xs \<and>
   (t \<notin> set xs \<longrightarrow> toggleFlag d (toggleFlag d xs t) t = xs) \<and>
   set (FilterChips_toggleFilter (FilterChips_toggleFilter xs t) t) = set xs \<and>
   (t \<notin> set xs \<longrightarrow> FilterChips_toggleFilter (FilterChips_toggleFilter xs t) t = xs) \<and>
   set (selectedFilters (Feed_toggleFilter (Feed_toggleFilter s t) t)) =
     set (selectedFilters s) \<and>
   (t \<notin> set (selectedFilters s) \<longrightarrow> Feed_toggleFilter (Feed_toggleFilter s t) t = s)"
  by (auto simp: toggleFlag_def FilterChips_toggleFilter_def Feed_toggleFilter_def
      filter_other)

theorem toggle_twice_restores_selection_witness:
  "''question'' \<notin> set [''recipe'', ''tip''] \<and>
   toggleFlag False (toggleFlag False [''recipe'', ''tip''] ''question'') ''question'' =
     [''recipe'', ''tip''] \<and>
   FilterChips_toggleFilter (FilterChips_toggleFilter [''recipe'', ''tip''] ''question'')
     ''question'' = [''recipe'', ''tip''] \<and>
   set (toggleFlag False (toggleFlag False [''recipe'', ''tip''] ''recipe'') ''recipe'') =
     set [''recipe'', ''tip'']"
  using toggle_twice_restores_selection [of False "[''recipe'', ''tip'']" "''question''"]
    toggle_twice_restores_selection [of False "[''recipe'', ''tip'']" "''recipe''"]
  by simp

text \<open>
  A tag that was selected moves to the end of the list: the selection is restored as a
  set, not as a list.
\<close>

lemma toggle_twice_reorders:
  "toggleFlag False (toggleFlag False [''recipe'', ''tip''] ''recipe'') ''recipe'' =
     [''tip'', ''recipe'']"
  by (simp add: toggleFlag_def)

section \<open>The feed\<close>

lemma mset_select_no_filters:
  "filters q = [] \<Longrightarrow> mset (select_rows holds key q rows) = mset rows"
  by (auto simp: select_rows_def split: option.splits)

lemma Feed_query_no_filters:
  "searchTerm s = [] \<Longrightarrow> selectedFilters s = [] \<Longrightarrow> filters (Feed_query s) = []"
  by (simp add: Feed_query_def Let_def split: sortBy.splits)

text \<open>With a search term or a selected tag the query does carry a filter.\<close>

lemma Feed_query_filters:
  "searchTerm s \<noteq> [] \<or> selectedFilters s \<noteq> [] \<Longrightarrow> filters (Feed_query s) \<noteq> []"
  by (auto simp: Feed_query_def Let_def split: sortBy.splits)

text \<open>
  Claim C7. With an empty search term and no selected tag the feed's query has no
  filter, neither the search predicate nor the flag containment, so the platform returns
  every post, each as often as the table holds it, whatever the sort order. Clearing the
  filters empties the selection (and, on the feed, the search term), so the feed then
  shows the full list.
\<close>

theorem unfiltered_feed_returns_every_post:
  "(searchTerm s = [] \<and> selectedFilters s = [] \<longrightarrow>
      filters (Feed_query s) = [] \<and> mset (Feed_posts holds key s rows) = mset rows) \<and>
   clearAllFilters sel = [] \<and>
   searchTerm (Feed_clear_filters s) = [] \<and>
   selectedFilters (Feed_clear_filters s) = [] \<and>
   mset (Feed_posts holds key (Feed_clear_filters s) rows) = mset rows"
proof -
  have b: "mset (Feed_posts holds key s' rows) = mset rows"
    if "searchTerm s' = []" "selectedFilters s' = []" for s'
    using Feed_query_no_filters [OF that] by (simp add: Feed_posts_def mset_select_no_filters)
  show ?thesis
    using b by (simp add: clearAllFilters_def Feed_clear_filters_def Feed_query_no_filters)
qed

theorem unfiltered_feed_returns_every_post_witness:
  "searchTerm \<lparr>searchTerm = [], sortBy = newest, selectedFilters = []\<rparr> = [] \<and>
   selectedFilters \<lparr>searchTerm = [], sortBy = newest, selectedFilters = []\<rparr> = [] \<and>
   mset (Feed_posts (\<lambda>f p. False) (\<lambda>c p. post_upvotes p)
           \<lparr>searchTerm = [], sortBy = newest, selectedFilters = []\<rparr>
           [example_post 1, example_post 2]) =
     mset [example_post 1, example_post 2]"
  using unfiltered_feed_returns_every_post
    [of "\<lparr>searchTerm = [], sortBy = newest, selectedFilters = []\<rparr>" "\<lambda>f p. False"
      "\<lambda>c p. post_upvotes p" "[example_post 1, example_post 2]"]
  by simp

section \<open>The post page: what is shown\<close>

lemma post_step: "post (step s e) = (case e of PostFetched p \<Rightarrow> Some p | _ \<Rightarrow> post s)"
  by (cases e)
    (auto simp: handleUpvote_def upvoteMutation_mutate_def upvote_onSuccess_def
      upvote_onError_def issue_request_def handleCommentSubmit_def commentMutation_mutate_def
      comment_onSuccess_def comment_onError_def Let_def split: option.splits)

lemma last_fetched_Cons:
  "last_fetched p (e # es) = last_fetched (case e of PostFetched q \<Rightarrow> Some q | _ \<Rightarrow> p) es"
  by (cases e) simp_all

text \<open>Only a fetch changes the post the page holds.\<close>

lemma post_run: "post (run s es) = last_fetched (post s) es"
  unfolding run_def
  by (induction es arbitrary: s)
    (simp_all add: post_step last_fetched_Cons del: step.simps last_fetched.simps(2-))

lemma issued_handleUpvote:
  "issued (handleUpvote s) =
     (case post s of
        Some p \<Rightarrow>
          if \<not> upvote_isPending s \<and> truthy (owner_id s)
          then issued s @ [IncrementUpvotes (post_id p)] else issued s
      | None \<Rightarrow> issued s)"
  by (auto simp: handleUpvote_def upvoteMutation_mutate_def upvote_onError_def
      issue_request_def split: option.splits)


text \<open>
  Claim C8. After any run of events the count shown is the \<open>upvotes\<close> field of the
  record the last fetch delivered. The upvote handler leaves the post it holds as it is
  and issues at most one request, the \<open>increment_upvotes\<close> call for that post; when that
  call succeeds the page issues the refetch of the post.
\<close>

theorem shown_upvotes_are_last_fetched:
  "upvotes_shown (run s es) = map_option post_upvotes (last_fetched (post s) es) \<and>
   post (handleUpvote s) = post s \<and>
   issued (handleUpvote s) =
     (case post s of
        Some p \<Rightarrow>
          if \<not> upvote_isPending s \<and> truthy (owner_id s)
          then issued s @ [IncrementUpvotes (post_id p)] else issued s
      | None \<Rightarrow> issued s) \<and>
   (list_ex is_increment (in_flight s) \<longrightarrow>
      issued (step s (UpvoteSettled None)) = issued s @ [SelectPost (id_param s)])"
proof -
  have "post (handleUpvote s) = post s"
    using post_step [of s UpvoteClicked] by simp
  moreover have "list_ex is_increment (in_flight s) \<Longrightarrow>
      issued (step s (UpvoteSettled None)) = issued s @ [SelectPost (id_param s)]"
    by (simp add: upvote_onSuccess_def issue_request_def)
  ultimately show ?thesis
    by (simp add: upvotes_shown_def post_run issued_handleUpvote)
qed

text \<open>
  The page that has sent an upvote for a post with 4 upvotes: when the call succeeds the
  refetch is issued and the page still shows 4; it shows 5 once the refetch delivers 5.
\<close>

theorem shown_upvotes_are_last_fetched_witness:
  "list_ex is_increment (in_flight upvote_sent) \<and>
   issued (step upvote_sent (UpvoteSettled None)) =
     [SelectPost ''p1'', SelectComments ''p1'', IncrementUpvotes ''p1'', SelectPost ''p1''] \<and>
   upvotes_shown (run upvote_sent [UpvoteSettled None]) = Some 4 \<and>
   upvotes_shown (run upvote_sent [UpvoteSettled None, PostFetched (example_post 5)]) = Some 5"
proof -
  have h: "list_ex is_increment (in_flight upvote_sent)"
    by (simp add: upvote_sent_def)
  have i: "issued upvote_sent = [SelectPost ''p1'', SelectComments ''p1'', IncrementUpvotes ''p1'']"
    "id_param upvote_sent = ''p1''" "post upvote_sent = Some (example_post 4)"
    by (simp_all add: upvote_sent_def)
  have u: "post_upvotes (example_post n) = n" for n
    by (simp add: example_post_def)
  note t1 = shown_upvotes_are_last_fetched [of upvote_sent "[UpvoteSettled None]"]
  note t2 = shown_upvotes_are_last_fetched
    [of upvote_sent "[UpvoteSettled None, PostFetched (example_post 5)]"]
  from t1 h have "issued (step upvote_sent (UpvoteSettled None)) =
     [SelectPost ''p1'', SelectComments ''p1'', IncrementUpvotes ''p1'', SelectPost ''p1'']"
    by (simp only: i) simp
  moreover from t1 have "upvotes_shown (run upvote_sent [UpvoteSettled None]) = Some 4"
    by (simp only: i) (simp add: u)
  moreover from t2 have
    "upvotes_shown (run upvote_sent [UpvoteSettled None, PostFetched (example_post 5)]) = Some 5"
    by (simp only: i) (simp add: u)
  ultimately show ?thesis using h by simp
qed

section \<open>The post page: requests in flight\<close>





















section \<open>Comments\<close>

lemma issued_handleCommentSubmit:
  "issued (handleCommentSubmit s) =
     (case owner_id s of
        Some u \<Rightarrow>
          if u \<noteq> [] \<and> trim (newComment s) \<noteq> [] \<and> \<not> isSubmittingComment s
          then issued s @ [InsertComment (trim (newComment s)) u (id_param s)] else issued s
      | None \<Rightarrow> issued s)"
  by (auto simp: handleCommentSubmit_def commentMutation_mutate_def comment_onError_def
      issue_request_def split: option.splits)

lemma not_white_space_a: "\<not> is_white_space (CHR ''a'')"
  by (simp add: is_white_space_def)

lemma commentSchema_Str:
  "commentSchema (Str c) =
     (if 3 \<le> length c \<and> length c \<le> 500 then Inr (Str c)
      else Inl (map (Pair ''content'')
        ((if 1 \<le> length c then [] else [Issue too_small (Some ''Comment cannot be empty'')]) @
         (if 3 \<le> length c then []
          else [Issue too_small (Some ''Comment must be at least 3 characters'')]) @
         (if length c \<le> 500 then []
          else [Issue too_big (Some ''Comment must be less than 500 characters'')]))))"
  by (simp add: commentSchema_def z_min_def z_max_def keyed_def)

text \<open>
  Claim C10. The comment handler issues an insert exactly when the trimmed comment is
  not empty, no submission is in flight and there is a user id; what it inserts is the
  trimmed comment. \<open>commentSchema\<close> plays no part: the one-character comment and the
  comment of 10000 characters, both rejected by the schema, are sent.
\<close>

theorem comment_insert_issued_iff:
  "issued (handleCommentSubmit s) =
     (case owner_id s of
        Some u \<Rightarrow>
          if u \<noteq> [] \<and> trim (newComment s) \<noteq> [] \<and> \<not> isSubmittingComment s
          then issued s @ [InsertComment (trim (newComment s)) u (id_param s)] else issued s
      | None \<Rightarrow> issued s) \<and>
   (issued (handleCommentSubmit s) \<noteq> issued s \<longleftrightarrow>
      trim (newComment s) \<noteq> [] \<and> \<not> isSubmittingComment s \<and> truthy (owner_id s)) \<and>
   commentSchema (Str ''a'') =
     Inl [(''content'', Issue too_small (Some ''Comment must be at least 3 characters''))] \<and>
   issued (handleCommentSubmit ((PostPage_init ''p1'' (Some ''u1''))\<lparr>newComment := ''a''\<rparr>)) =
     [SelectPost ''p1'', SelectComments ''p1'', InsertComment ''a'' ''u1'' ''p1''] \<and>
   commentSchema (Str (replicate 10000 (CHR ''a''))) =
     Inl [(''content'', Issue too_big (Some ''Comment must be less than 500 characters''))] \<and>
   issued (handleCommentSubmit
       ((PostPage_init ''p1'' (Some ''u1''))\<lparr>newComment := replicate 10000 (CHR ''a'')\<rparr>)) =
     [SelectPost ''p1'', SelectComments ''p1'',
      InsertComment (replicate 10000 (CHR ''a'')) ''u1'' ''p1'']"
proof -
  have 1: "issued (handleCommentSubmit s) \<noteq> issued s \<longleftrightarrow>
      trim (newComment s) \<noteq> [] \<and> \<not> isSubmittingComment s \<and> truthy (owner_id s)"
    by (auto simp: issued_handleCommentSubmit truthy_def split: option.splits)
  have 2: "trim ''a'' = ''a''"
    by (simp add: trim_single not_white_space_a)
  have 3: "trim (replicate 10000 (CHR ''a'')) = replicate 10000 (CHR ''a'')"
    by (simp add: trim_replicate not_white_space_a)
  have 4: "replicate 10000 (CHR ''a'') \<noteq> []"
    by (simp add: replicate_empty)
  show ?thesis
    using 1 by (simp add: issued_handleCommentSubmit commentSchema_Str 2 3 4 PostPage_init_def)
qed

section \<open>Retries\<close>









end
